theory Spec2Isabelle
  imports Main
begin

section \<open>The interface factory and its parameter\<close>

text \<open>
  The JavaScript module exports two functions, \<open>idlFactory\<close> and \<open>init\<close>. Both take an
  object and read its member \<open>IDL\<close>, the namespace of the Candid library. The library is
  an external dependency, so it is a parameter of the model: a record of the five members
  that the function bodies mention. \<open>'t\<close> is whatever the library uses for a type,
  \<open>'f\<close> for a function type and \<open>'s\<close> for a service. Both records are extensible, as a
  JavaScript object may carry any further members.

  An object literal \<open>{ 'a' : x, 'b' : y }\<close> is an association list in source order.
\<close>

record ('t, 'f, 's) IDL_namespace =
  Text :: 't
  Bool :: 't
  Record :: "(string \<times> 't) list \<Rightarrow> 't"
  Func :: "'t list \<Rightarrow> 't list \<Rightarrow> string list \<Rightarrow> 'f"
  Service :: "(string \<times> 'f) list \<Rightarrow> 's"

record 'i factory_args =
  IDL :: 'i

definition idlFactory ::
  "(('t, 'f, 's, 'm) IDL_namespace_scheme, 'z) factory_args_scheme \<Rightarrow> 's" where
  "idlFactory a =
    (let SIGNATURE_INFO = Record (IDL a)
           [(''verifying_key'', Text (IDL a)),
            (''signature_str'', Text (IDL a))]
     in Service (IDL a)
          [(''generate_key'', Func (IDL a) [] [Text (IDL a)] [''query'']),
           (''greet'', Func (IDL a) [Text (IDL a)] [Text (IDL a)] [''query'']),
           (''rng_seed'', Func (IDL a) [] [Text (IDL a)] [''query'']),
           (''schnorr_signature'',
              Func (IDL a) [Text (IDL a), Text (IDL a)] [SIGNATURE_INFO] [''query'']),
           (''update_rng_seed'', Func (IDL a) [Text (IDL a)] [] []),
           (''validate_schnorr'',
              Func (IDL a) [Text (IDL a), Text (IDL a), Text (IDL a)] [Bool (IDL a)]
                [''query''])])"

definition init ::
  "(('t, 'f, 's, 'm) IDL_namespace_scheme, 'z) factory_args_scheme \<Rightarrow> 't list" where
  "init a = []"

section \<open>A library instance that records the constructor calls\<close>

text \<open>
  To speak about the shape of the service that \<open>idlFactory\<close> builds, the parameter is
  instantiated with constructors that keep exactly what they were given: a type is
  \<open>text\<close>, \<open>bool\<close> or a record of labelled types, a function type keeps its argument
  types, result types and annotations, a service keeps its labelled function types.
  Labels stay in the order of the source text.
\<close>

datatype idl_type = TextClass | BoolClass | RecordClass "(string \<times> idl_type) list"

datatype idl_func = FuncClass "idl_type list" "idl_type list" "string list"

datatype idl_service = ServiceClass "(string \<times> idl_func) list"

definition candid_IDL :: "(idl_type, idl_func, idl_service) IDL_namespace" where
  "candid_IDL =
    \<lparr>Text = TextClass, Bool = BoolClass, Record = RecordClass,
     Func = FuncClass, Service = ServiceClass\<rparr>"

definition built_service :: idl_service where
  "built_service = idlFactory \<lparr>IDL = candid_IDL\<rparr>"

fun service_methods :: "idl_service \<Rightarrow> (string \<times> idl_func) list" where
  "service_methods (ServiceClass ms) = ms"

fun func_args :: "idl_func \<Rightarrow> idl_type list" where
  "func_args (FuncClass as rs an) = as"

fun func_rets :: "idl_func \<Rightarrow> idl_type list" where
  "func_rets (FuncClass as rs an) = rs"

fun func_annotations :: "idl_func \<Rightarrow> string list" where
  "func_annotations (FuncClass as rs an) = an"

fun is_record :: "idl_type \<Rightarrow> bool" where
  "is_record (RecordClass fs) = True"
| "is_record t = False"

text \<open>The record types among the argument and result types of a list of methods.\<close>

definition record_types :: "(string \<times> idl_func) list \<Rightarrow> idl_type list" where
  "record_types ms =
     remdups (filter is_record (concat (map (\<lambda>(n, f). func_args f @ func_rets f) ms)))"

section \<open>The Candid service definition\<close>

text \<open>
  The file \<open>freederation_nostr_backend.did\<close>: one type definition and a service of six
  methods. A type is \<open>text\<close>, \<open>bool\<close>, a record, or the name of a defined type; a
  method has argument types, result types and a list of annotations (\<open>query\<close> or none).
\<close>

datatype did_type = DText | DBool | DRecord "(string \<times> did_type) list" | DVar string

datatype did_func = DFunc "did_type list" "did_type list" "string list"

record did_file =
  type_defs :: "(string \<times> did_type) list"
  service :: "(string \<times> did_func) list"

definition backend_did :: did_file where
  "backend_did =
    \<lparr>type_defs =
       [(''SIGNATURE_INFO'',
           DRecord [(''verifying_key'', DText), (''signature_str'', DText)])],
     service =
       [(''generate_key'', DFunc [] [DText] [''query'']),
        (''greet'', DFunc [DText] [DText] [''query'']),
        (''rng_seed'', DFunc [] [DText] [''query'']),
        (''schnorr_signature'', DFunc [DText, DText] [DVar ''SIGNATURE_INFO''] [''query'']),
        (''update_rng_seed'', DFunc [DText] [] []),
        (''validate_schnorr'', DFunc [DText, DText, DText] [DBool] [''query''])]\<rparr>"

fun did_annotations :: "did_func \<Rightarrow> string list" where
  "did_annotations (DFunc as rs an) = an"

section \<open>The TypeScript declarations\<close>

text \<open>
  The file \<open>freederation_nostr_backend.did.d.ts\<close>: two exported interfaces and two
  declared constants. A member of an interface is a plain field or an
  \<open>ActorMethod<Args, Ret>\<close>, whose two type parameters are the tuple of argument types and
  the result type; the type has no third parameter.
\<close>

datatype ts_type = TsString | TsBoolean | TsUndefined | TsRef string

datatype ts_member = TsField ts_type | ActorMethod "ts_type list" ts_type

record ts_file =
  interfaces :: "(string \<times> (string \<times> ts_member) list) list"
  declared_consts :: "string list"

definition backend_d_ts :: ts_file where
  "backend_d_ts =
    \<lparr>interfaces =
       [(''SIGNATURE_INFO'',
           [(''verifying_key'', TsField TsString),
            (''signature_str'', TsField TsString)]),
        (''_SERVICE'',
           [(''generate_key'', ActorMethod [] TsString),
            (''greet'', ActorMethod [TsString] TsString),
            (''rng_seed'', ActorMethod [] TsString),
            (''schnorr_signature'', ActorMethod [TsString, TsString] (TsRef ''SIGNATURE_INFO'')),
            (''update_rng_seed'', ActorMethod [TsString] TsUndefined),
            (''validate_schnorr'', ActorMethod [TsString, TsString, TsString] TsBoolean)])],
     declared_consts = [''idlFactory'', ''init'']\<rparr>"

definition ts_service :: "ts_file \<Rightarrow> (string \<times> ts_member) list" where
  "ts_service t = (case map_of (interfaces t) ''_SERVICE'' of None \<Rightarrow> [] | Some ms \<Rightarrow> ms)"

section \<open>Reading the three descriptions in one vocabulary\<close>

text \<open>
  To compare the descriptions, each is read as a list of named function types over
  \<open>idl_type\<close>. In the Candid file a type name stands for its definition; following
  names is bounded by a counter, since Candid type definitions may be recursive, and an
  unknown name or an exhausted counter gives \<open>None\<close>.
\<close>

fun did_resolve :: "nat \<Rightarrow> (string \<times> did_type) list \<Rightarrow> did_type \<Rightarrow> idl_type option" where
  "did_resolve n env DText = Some TextClass"
| "did_resolve n env DBool = Some BoolClass"
| "did_resolve n env (DRecord fs) =
     map_option RecordClass
       (those (map (\<lambda>(k, t). map_option (Pair k) (did_resolve n env t)) fs))"
| "did_resolve 0 env (DVar x) = None"
| "did_resolve (Suc n) env (DVar x) =
     (case map_of env x of None \<Rightarrow> None | Some t \<Rightarrow> did_resolve n env t)"

fun did_func_view :: "(string \<times> did_type) list \<Rightarrow> did_func \<Rightarrow> idl_func option" where
  "did_func_view env (DFunc as rs an) =
     (case (those (map (did_resolve (length env) env) as),
            those (map (did_resolve (length env) env) rs)) of
        (Some as', Some rs') \<Rightarrow> Some (FuncClass as' rs' an)
      | _ \<Rightarrow> None)"

definition did_view :: "did_file \<Rightarrow> (string \<times> idl_func) list option" where
  "did_view d =
     those (map (\<lambda>(n, f). map_option (Pair n) (did_func_view (type_defs d) f)) (service d))"

text \<open>
  In the TypeScript file \<open>string\<close> stands for \<open>text\<close>, \<open>boolean\<close> for \<open>bool\<close>, a
  reference to an interface for the record of its fields, and the result type
  \<open>undefined\<close> for no result. A signature is a name with argument and result types.
\<close>

fun ts_resolve ::
  "nat \<Rightarrow> (string \<times> (string \<times> ts_member) list) list \<Rightarrow> ts_type \<Rightarrow> idl_type option" where
  "ts_resolve n env TsString = Some TextClass"
| "ts_resolve n env TsBoolean = Some BoolClass"
| "ts_resolve n env TsUndefined = None"
| "ts_resolve 0 env (TsRef x) = None"
| "ts_resolve (Suc n) env (TsRef x) =
     (case map_of env x of
        None \<Rightarrow> None
      | Some fs \<Rightarrow>
          map_option RecordClass
            (those (map (\<lambda>(k, m). case m of
                                      TsField t \<Rightarrow> map_option (Pair k) (ts_resolve n env t)
                                    | ActorMethod as r \<Rightarrow> None) fs)))"

fun ts_result ::
  "(string \<times> (string \<times> ts_member) list) list \<Rightarrow> ts_type \<Rightarrow> idl_type list option" where
  "ts_result env TsUndefined = Some []"
| "ts_result env r = map_option (\<lambda>t. [t]) (ts_resolve (length env) env r)"

fun ts_member_signature ::
  "(string \<times> (string \<times> ts_member) list) list \<Rightarrow> ts_member \<Rightarrow>
     (idl_type list \<times> idl_type list) option" where
  "ts_member_signature env (ActorMethod as r) =
     (case (those (map (ts_resolve (length env) env) as), ts_result env r) of
        (Some as', Some rs') \<Rightarrow> Some (as', rs')
      | _ \<Rightarrow> None)"
| "ts_member_signature env (TsField t) = None"

definition ts_signatures :: "ts_file \<Rightarrow> (string \<times> idl_type list \<times> idl_type list) list option" where
  "ts_signatures t =
     those (map (\<lambda>(n, m). map_option (Pair n) (ts_member_signature (interfaces t) m))
              (ts_service t))"

definition signatures_of ::
  "(string \<times> idl_func) list \<Rightarrow> (string \<times> idl_type list \<times> idl_type list) list" where
  "signatures_of ms = map (\<lambda>(n, f). (n, func_args f, func_rets f)) ms"

text \<open>
  The TypeScript declaration read as function types with annotations: an \<open>ActorMethod\<close>
  type declares none, so every method carries the empty list.
\<close>

definition ts_view :: "ts_file \<Rightarrow> (string \<times> idl_func) list option" where
  "ts_view t = map_option (map (\<lambda>(n, as, rs). (n, FuncClass as rs []))) (ts_signatures t)"

section \<open>The interface table of the specification\<close>

text \<open>
  The table of the specification's section on external interfaces, row by row: method,
  input types, output types, and whether the method is mutating.
\<close>

definition interface_table :: "(string \<times> idl_type list \<times> idl_type list \<times> bool) list" where
  "interface_table =
    [(''generate_key'', [], [TextClass], False),
     (''greet'', [TextClass], [TextClass], False),
     (''rng_seed'', [], [TextClass], False),
     (''schnorr_signature'', [TextClass, TextClass],
        [RecordClass [(''verifying_key'', TextClass), (''signature_str'', TextClass)]], False),
     (''update_rng_seed'', [TextClass], [], True),
     (''validate_schnorr'', [TextClass, TextClass, TextClass], [BoolClass], False)]"

definition table_signatures :: "(string \<times> idl_type list \<times> idl_type list) list" where
  "table_signatures = map (\<lambda>(n, ins, outs, m). (n, ins, outs)) interface_table"

definition table_mutating :: "(string \<times> bool) list" where
  "table_mutating = map (\<lambda>(n, ins, outs, m). (n, m)) interface_table"

text \<open>Whether a list of annotations marks a method as a query.\<close>

definition is_query :: "string list \<Rightarrow> bool" where
  "is_query an = List.member an ''query''"

section \<open>Composite types that a description mentions\<close>

text \<open>
  Every record type that occurs in a type, the type itself included and the types of
  its fields, at any depth.
\<close>

fun records_in :: "idl_type \<Rightarrow> idl_type list" where
  "records_in TextClass = []"
| "records_in BoolClass = []"
| "records_in (RecordClass fs) = RecordClass fs # concat (map (\<lambda>(k, t). records_in t) fs)"

definition all_record_types :: "(string \<times> idl_func) list \<Rightarrow> idl_type list" where
  "all_record_types ms =
     remdups (concat (map (\<lambda>(n, f). concat (map records_in (func_args f @ func_rets f))) ms))"

text \<open>
  In the Candid file: the record types written inside a type, at any depth, and the type
  names it mentions; then, for the whole file, the records written inline in the method
  signatures, the names the signatures mention, and the records of the type definitions.
\<close>

fun did_func_types :: "did_func \<Rightarrow> did_type list" where
  "did_func_types (DFunc as rs an) = as @ rs"

fun did_records_in :: "did_type \<Rightarrow> did_type list" where
  "did_records_in DText = []"
| "did_records_in DBool = []"
| "did_records_in (DVar x) = []"
| "did_records_in (DRecord fs) = DRecord fs # concat (map (\<lambda>(k, t). did_records_in t) fs)"

fun did_names_in :: "did_type \<Rightarrow> string list" where
  "did_names_in DText = []"
| "did_names_in DBool = []"
| "did_names_in (DVar x) = [x]"
| "did_names_in (DRecord fs) = concat (map (\<lambda>(k, t). did_names_in t) fs)"

definition did_inline_records :: "did_file \<Rightarrow> did_type list" where
  "did_inline_records d =
     concat (map (\<lambda>(n, f). concat (map did_records_in (did_func_types f))) (service d))"

definition did_names_used :: "did_file \<Rightarrow> string list" where
  "did_names_used d =
     remdups (concat (map (\<lambda>(n, f). concat (map did_names_in (did_func_types f))) (service d)))"

definition did_defined_records :: "did_file \<Rightarrow> did_type list" where
  "did_defined_records d = concat (map (\<lambda>(n, t). did_records_in t) (type_defs d))"

text \<open>
  In the TypeScript file: the interfaces other than \<open>_SERVICE\<close>, and the interface
  names that the members of \<open>_SERVICE\<close> mention. A TypeScript type of the file is
  \<open>string\<close>, \<open>boolean\<close>, \<open>undefined\<close> or such a name, so no object type is written
  inline.
\<close>

fun ts_member_types :: "ts_member \<Rightarrow> ts_type list" where
  "ts_member_types (ActorMethod as r) = as @ [r]"
| "ts_member_types (TsField t) = [t]"

fun ts_refs_in :: "ts_type \<Rightarrow> string list" where
  "ts_refs_in (TsRef x) = [x]"
| "ts_refs_in t = []"

definition ts_record_interfaces :: "ts_file \<Rightarrow> (string \<times> (string \<times> ts_member) list) list" where
  "ts_record_interfaces t = filter (\<lambda>(n, ms). n \<noteq> ''_SERVICE'') (interfaces t)"

definition ts_names_used :: "ts_file \<Rightarrow> string list" where
  "ts_names_used t =
     remdups (concat (map (\<lambda>(n, m). concat (map ts_refs_in (ts_member_types m)))
       (ts_service t)))"

section \<open>The service that the factory builds\<close>

lemma built_service_value:
  "built_service = ServiceClass
    [(''generate_key'', FuncClass [] [TextClass] [''query'']),
     (''greet'', FuncClass [TextClass] [TextClass] [''query'']),
     (''rng_seed'', FuncClass [] [TextClass] [''query'']),
     (''schnorr_signature'', FuncClass [TextClass, TextClass]
        [RecordClass [(''verifying_key'', TextClass), (''signature_str'', TextClass)]]
        [''query'']),
     (''update_rng_seed'', FuncClass [TextClass] [] []),
     (''validate_schnorr'', FuncClass [TextClass, TextClass, TextClass] [BoolClass]
        [''query''])]"
  by (simp add: built_service_def idlFactory_def candid_IDL_def)

lemma did_view_value: "did_view backend_did = Some (service_methods built_service)"
  by (simp add: built_service_value did_view_def backend_did_def)

lemma ts_signatures_value: "ts_signatures backend_d_ts = Some table_signatures"
  by (simp add: ts_signatures_def ts_service_def backend_d_ts_def table_signatures_def
      interface_table_def)

section \<open>Methods and types declared\<close>

text \<open>
  C1: the service has exactly six methods, \<open>generate_key\<close>, \<open>greet\<close>, \<open>rng_seed\<close>,
  \<open>schnorr_signature\<close>, \<open>update_rng_seed\<close> and \<open>validate_schnorr\<close>, and exactly one
  composite type, the record \<open>SIGNATURE_INFO\<close>. This holds of each description.

  The Candid file lists these six methods. Its only type definition is
  \<open>SIGNATURE_INFO\<close>, a record of two text fields with no record inside it; no method
  signature writes a record inline, and the only type name the signatures mention is
  \<open>SIGNATURE_INFO\<close>.

  The service built by \<open>idlFactory\<close> has these six methods, and the record types that
  occur at any depth in their argument and result types are this one record.

  The TypeScript file declares the interface \<open>_SERVICE\<close> with these six members and
  one other interface, \<open>SIGNATURE_INFO\<close>, with two plain fields; the only interface
  name that the members of \<open>_SERVICE\<close> mention is \<open>SIGNATURE_INFO\<close>.
\<close>

theorem six_methods_one_record_type:
  "map fst (service backend_did) =
      [''generate_key'', ''greet'', ''rng_seed'', ''schnorr_signature'',
       ''update_rng_seed'', ''validate_schnorr''] \<and>
   type_defs backend_did =
      [(''SIGNATURE_INFO'',
          DRecord [(''verifying_key'', DText), (''signature_str'', DText)])] \<and>
   did_defined_records backend_did =
      [DRecord [(''verifying_key'', DText), (''signature_str'', DText)]] \<and>
   did_inline_records backend_did = [] \<and>
   did_names_used backend_did = [''SIGNATURE_INFO''] \<and>
   map fst (service_methods built_service) =
      [''generate_key'', ''greet'', ''rng_seed'', ''schnorr_signature'',
       ''update_rng_seed'', ''validate_schnorr''] \<and>
   all_record_types (service_methods built_service) =
      [RecordClass [(''verifying_key'', TextClass), (''signature_str'', TextClass)]] \<and>
   map fst (ts_service backend_d_ts) =
      [''generate_key'', ''greet'', ''rng_seed'', ''schnorr_signature'',
       ''update_rng_seed'', ''validate_schnorr''] \<and>
   map fst (interfaces backend_d_ts) = [''SIGNATURE_INFO'', ''_SERVICE''] \<and>
   ts_record_interfaces backend_d_ts =
      [(''SIGNATURE_INFO'',
          [(''verifying_key'', TsField TsString), (''signature_str'', TsField TsString)])] \<and>
   ts_names_used backend_d_ts = [''SIGNATURE_INFO''] \<and>
   distinct [''generate_key'', ''greet'', ''rng_seed'', ''schnorr_signature'',
       ''update_rng_seed'', ''validate_schnorr'']"
proof -
  have did:
    "map fst (service backend_did) =
        [''generate_key'', ''greet'', ''rng_seed'', ''schnorr_signature'',
         ''update_rng_seed'', ''validate_schnorr''] \<and>
     type_defs backend_did =
        [(''SIGNATURE_INFO'',
            DRecord [(''verifying_key'', DText), (''signature_str'', DText)])] \<and>
     did_defined_records backend_did =
        [DRecord [(''verifying_key'', DText), (''signature_str'', DText)]] \<and>
     did_inline_records backend_did = [] \<and>
     did_names_used backend_did = [''SIGNATURE_INFO'']"
    by (simp add: backend_did_def did_defined_records_def did_inline_records_def
        did_names_used_def)
  have built:
    "map fst (service_methods built_service) =
        [''generate_key'', ''greet'', ''rng_seed'', ''schnorr_signature'',
         ''update_rng_seed'', ''validate_schnorr''] \<and>
     all_record_types (service_methods built_service) =
        [RecordClass [(''verifying_key'', TextClass), (''signature_str'', TextClass)]]"
    by (simp add: built_service_value all_record_types_def)
  have ts:
    "map fst (ts_service backend_d_ts) =
        [''generate_key'', ''greet'', ''rng_seed'', ''schnorr_signature'',
         ''update_rng_seed'', ''validate_schnorr''] \<and>
     map fst (interfaces backend_d_ts) = [''SIGNATURE_INFO'', ''_SERVICE''] \<and>
     ts_record_interfaces backend_d_ts =
        [(''SIGNATURE_INFO'',
            [(''verifying_key'', TsField TsString), (''signature_str'', TsField TsString)])] \<and>
     ts_names_used backend_d_ts = [''SIGNATURE_INFO'']"
    by (simp add: backend_d_ts_def ts_service_def ts_record_interfaces_def ts_names_used_def)
  have names:
    "distinct [''generate_key'', ''greet'', ''rng_seed'', ''schnorr_signature'',
       ''update_rng_seed'', ''validate_schnorr'']"
    by simp
  from did built ts names show ?thesis by blast
qed

section \<open>Argument and result shapes\<close>

text \<open>
  C2: the argument and result types of every method are those of the interface table:
  \<open>generate_key\<close> takes nothing and returns text, \<open>greet\<close> takes a text and returns
  text, \<open>rng_seed\<close> takes nothing and returns text, \<open>schnorr_signature\<close> takes two
  texts and returns the record with text fields \<open>verifying_key\<close> and \<open>signature_str\<close>,
  \<open>update_rng_seed\<close> takes a text and returns nothing, \<open>validate_schnorr\<close> takes three
  texts and returns a bool. This holds of the Candid file, with the type name replaced
  by its definition, and of the service built by \<open>idlFactory\<close>.
\<close>

theorem method_shapes_match_table:
  "map_option signatures_of (did_view backend_did) = Some table_signatures \<and>
   signatures_of (service_methods built_service) = table_signatures"
  by (simp add: did_view_value built_service_value signatures_of_def table_signatures_def
      interface_table_def)

section \<open>Query annotations\<close>

text \<open>
  C3: five of the six methods carry the annotation \<open>query\<close>: \<open>generate_key\<close>, \<open>greet\<close>,
  \<open>rng_seed\<close>, \<open>schnorr_signature\<close> and \<open>validate_schnorr\<close>. The only method without it
  is \<open>update_rng_seed\<close>, which carries no annotation at all; it is the one row that the
  interface table marks as mutating. This holds of the Candid file and of the service
  built by \<open>idlFactory\<close>.
\<close>

theorem only_update_rng_seed_not_query:
  "map fst (filter (\<lambda>(n, f). is_query (did_annotations f)) (service backend_did)) =
      [''generate_key'', ''greet'', ''rng_seed'', ''schnorr_signature'',
       ''validate_schnorr''] \<and>
   map (\<lambda>(n, f). (n, did_annotations f))
       (filter (\<lambda>(n, f). \<not> is_query (did_annotations f)) (service backend_did)) =
      [(''update_rng_seed'', [])] \<and>
   map fst (filter (\<lambda>(n, f). is_query (func_annotations f))
       (service_methods built_service)) =
      [''generate_key'', ''greet'', ''rng_seed'', ''schnorr_signature'',
       ''validate_schnorr''] \<and>
   map (\<lambda>(n, f). (n, func_annotations f))
       (filter (\<lambda>(n, f). \<not> is_query (func_annotations f))
          (service_methods built_service)) =
      [(''update_rng_seed'', [])] \<and>
   map (\<lambda>(n, f). (n, \<not> is_query (func_annotations f))) (service_methods built_service) =
      table_mutating"
  by (simp add: built_service_value backend_did_def is_query_def table_mutating_def
      interface_table_def)

section \<open>The record SIGNATURE_INFO\<close>

text \<open>
  C4: \<open>SIGNATURE_INFO\<close> is a record of exactly two fields, \<open>verifying_key\<close> and
  \<open>signature_str\<close>, both text. The Candid file defines it so, the TypeScript interface
  of that name has these two fields of type \<open>string\<close>, and the record that
  \<open>idlFactory\<close> builds, the result type of \<open>schnorr_signature\<close>, has these two fields.
\<close>

theorem signature_info_two_text_fields:
  "map_of (type_defs backend_did) ''SIGNATURE_INFO'' =
      Some (DRecord [(''verifying_key'', DText), (''signature_str'', DText)]) \<and>
   map_of (interfaces backend_d_ts) ''SIGNATURE_INFO'' =
      Some [(''verifying_key'', TsField TsString), (''signature_str'', TsField TsString)] \<and>
   map_option func_rets (map_of (service_methods built_service) ''schnorr_signature'') =
      Some [RecordClass [(''verifying_key'', TextClass), (''signature_str'', TextClass)]] \<and>
   record_types (service_methods built_service) =
      [RecordClass [(''verifying_key'', TextClass), (''signature_str'', TextClass)]]"
  by (simp add: built_service_value backend_did_def backend_d_ts_def record_types_def)

section \<open>Agreement of the three descriptions\<close>

text \<open>
  C8, as stated: the Candid file, the TypeScript declaration and the service built by
  \<open>idlFactory\<close> declare the same methods with the same argument types, result types and
  query annotations. This fails for the TypeScript declaration: its \<open>ActorMethod\<close> types
  carry no annotation, so \<open>generate_key\<close>, a query in the Candid file, is declared
  there without one.
\<close>

theorem ts_declaration_lacks_query_annotations:
  "\<not> (did_view backend_did = Some (service_methods built_service) \<and>
      ts_view backend_d_ts = did_view backend_did)"
  by (simp add: did_view_value built_service_value ts_view_def ts_signatures_value
      table_signatures_def interface_table_def)

text \<open>
  C8, amended: the Candid file and the service built by \<open>idlFactory\<close> declare the same
  six methods with the same argument types, result types and annotations. The
  TypeScript declaration declares the same six methods with the same argument and
  result types, reading \<open>string\<close> as text, \<open>boolean\<close> as bool and \<open>undefined\<close> as no
  result; it says nothing about annotations. All three give \<open>SIGNATURE_INFO\<close> the same
  shape.
\<close>

theorem descriptions_agree_up_to_ts_annotations:
  "did_view backend_did = Some (service_methods built_service) \<and>
   ts_signatures backend_d_ts = map_option signatures_of (did_view backend_did) \<and>
   did_resolve (Suc 0) (type_defs backend_did) (DVar ''SIGNATURE_INFO'') =
     ts_resolve (Suc 0) (interfaces backend_d_ts) (TsRef ''SIGNATURE_INFO'') \<and>
   map Some (record_types (service_methods built_service)) =
     [did_resolve (Suc 0) (type_defs backend_did) (DVar ''SIGNATURE_INFO'')]"
proof -
  have methods: "ts_signatures backend_d_ts = map_option signatures_of (did_view backend_did)"
    by (simp add: did_view_value ts_signatures_value built_service_value signatures_of_def
        table_signatures_def interface_table_def)
  have did_record:
    "did_resolve (Suc 0) (type_defs backend_did) (DVar ''SIGNATURE_INFO'') =
       Some (RecordClass [(''verifying_key'', TextClass), (''signature_str'', TextClass)])"
    by (simp add: backend_did_def)
  have ts_record:
    "ts_resolve (Suc 0) (interfaces backend_d_ts) (TsRef ''SIGNATURE_INFO'') =
       Some (RecordClass [(''verifying_key'', TextClass), (''signature_str'', TextClass)])"
    by (simp add: backend_d_ts_def)
  have built_record:
    "record_types (service_methods built_service) =
       [RecordClass [(''verifying_key'', TextClass), (''signature_str'', TextClass)]]"
    by (simp add: built_service_value record_types_def)
  show ?thesis
    unfolding did_record ts_record built_record
    using methods did_view_value by simp
qed

section \<open>Installation arguments\<close>

text \<open>
  C9: the service declares no installation arguments. Whatever object \<open>init\<close> is given,
  it returns the empty list of argument types.
\<close>

theorem init_no_arguments: "init a = []"
  by (simp add: init_def)

end
